theory Spec2Isabelle
  imports Main
begin

section \<open>JavaScript values and errors\<close>

text \<open>
  The objects the program builds are plain records of properties. An object is a finite
  map from property names to values; two objects are structurally identical exactly when
  their maps are equal. Numbers are the integer column values of the schema, and
  \<open>JUndefined\<close> is what reading a missing property gives.
\<close>

datatype jsval =
  JUndefined | JNull | JNum int | JStr string | JObj "string \<Rightarrow> jsval option"

type_synonym props = "string \<Rightarrow> jsval option"

datatype error =
  TypeError | UniqueConstraintViolation | InconsistentQueryResult | DanglingReference
  | ValueOutOfRange

section \<open>The generated client types (prisma/schema.prisma)\<close>

text \<open>
  \<^verbatim>\<open>model Country { id Int @id; name String @unique; places Place[]; cities City[] }\<close>
  \<^verbatim>\<open>model City { id Int @id; name String @unique; places Place[]; country Country; countryId Int }\<close>
  \<^verbatim>\<open>model Place { id Int @id; city City?; cityId Int?; country Country?; countryId Int? }\<close>
  The scalar fields of a model make its client type; a relation is present only when a
  query includes it.
\<close>

record Prisma_Country =
  country_id :: int
  country_name :: string

record Prisma_City =
  city_id :: int
  city_name :: string
  city_countryId :: int

record Prisma_Place =
  place_id :: int
  place_cityId :: "int option"
  place_countryId :: "int option"

text \<open>\<^verbatim>\<open>Prisma.City & { country: Prisma.Country }\<close>\<close>

record City_with_country = Prisma_City +
  city_country :: Prisma_Country

text \<open>
  \<^verbatim>\<open>type PlaceResult = (Prisma.Place & { country: Prisma.Country | null;
       city: (Prisma.City & { country: Prisma.Country }) | null }) | null\<close>
\<close>

record Place_with_relations = Prisma_Place +
  place_country :: "Prisma_Country option"
  place_city :: "City_with_country option"

type_synonym PlaceResult = "Place_with_relations option"

text \<open>The own enumerable properties of a value of each client type: what a spread copies.\<close>

definition props_Country :: "Prisma_Country \<Rightarrow> props" where
  "props_Country k = [''id'' \<mapsto> JNum (country_id k), ''name'' \<mapsto> JStr (country_name k)]"

definition props_City :: "City_with_country \<Rightarrow> props" where
  "props_City c =
     [''id'' \<mapsto> JNum (city_id c),
      ''name'' \<mapsto> JStr (city_name c),
      ''countryId'' \<mapsto> JNum (city_countryId c),
      ''country'' \<mapsto> JObj (props_Country (city_country c))]"

section \<open>Expressions of usage.ts\<close>

text \<open>\<^verbatim>\<open>x?.f\<close>: undefined when \<open>x\<close> is null, the member otherwise.\<close>

definition opt_chain :: "'a option \<Rightarrow> ('a \<Rightarrow> 'b option) \<Rightarrow> 'b option" where
  "opt_chain x f = (case x of None \<Rightarrow> None | Some a \<Rightarrow> f a)"

text \<open>\<^verbatim>\<open>x.f\<close>: a TypeError when \<open>x\<close> is null.\<close>

definition member :: "'a option \<Rightarrow> ('a \<Rightarrow> 'b) \<Rightarrow> error + 'b" where
  "member x f = (case x of None \<Rightarrow> Inl TypeError | Some a \<Rightarrow> Inr (f a))"

text \<open>The test of an \<^verbatim>\<open>if\<close>: an object is truthy, null and undefined are not.\<close>

definition truthy :: "'a option \<Rightarrow> bool" where
  "truthy x = (x \<noteq> None)"

text \<open>
  \<^verbatim>\<open>{ ...src }\<close> inside an object literal: the properties of \<open>src\<close> are written
  over those the literal has so far; spreading null copies nothing.
\<close>

definition spread :: "props \<Rightarrow> props option \<Rightarrow> props" where
  "spread target src = (case src of None \<Rightarrow> target | Some m \<Rightarrow> target ++ m)"

section \<open>transformPlaceUnion (usage.ts, lines 17 to 27)\<close>

text \<open>
  \<^verbatim>\<open>
  function transformPlaceUnion (result: PlaceResult): Place | null {
    if (result?.city) {
      return {
        ...result.city,
        type: 'city',
        country: { type: 'country', ...result.city.country }
      }
    }
    if (result?.country) return { ...result.country, type: 'country'}
    return null
  }
  \<close>
\<close>

definition transformPlaceUnion :: "PlaceResult \<Rightarrow> error + jsval" where
  "transformPlaceUnion result =
     (if truthy (opt_chain result place_city) then
        (case member result place_city of
           Inl e \<Rightarrow> Inl e
         | Inr city \<Rightarrow>
             (case member result place_city of
                Inl e \<Rightarrow> Inl e
              | Inr city' \<Rightarrow>
                  (case member city' city_country of
                     Inl e \<Rightarrow> Inl e
                   | Inr country \<Rightarrow>
                       Inr (JObj ((spread Map.empty (map_option props_City city))
                         (''type'' \<mapsto> JStr ''city'',
                          ''country'' \<mapsto>
                             JObj (spread [''type'' \<mapsto> JStr ''country'']
                                     (Some (props_Country country)))))))))
      else if truthy (opt_chain result place_country) then
        (case member result place_country of
           Inl e \<Rightarrow> Inl e
         | Inr country \<Rightarrow>
             Inr (JObj ((spread Map.empty (map_option props_Country country))
               (''type'' \<mapsto> JStr ''country''))))
      else Inr JNull)"

section \<open>The database (the migration, after the schema in prisma/schema.prisma)\<close>

text \<open>
  The client and the database server are not part of the repository. They are modelled
  as far as the calls of the program need them: three tables with the columns, keys and
  foreign keys of the migration, an insert, a delete and the one query.

  \<^verbatim>\<open>CREATE TABLE "City" ("id" SERIAL NOT NULL, "name" TEXT NOT NULL, "countryId" INTEGER,
    CONSTRAINT "City_pkey" PRIMARY KEY ("id"));\<close>
  The column \<^verbatim>\<open>"countryId"\<close> carries no NOT NULL, so a row may hold NULL there, unlike
  the client type \<^typ>\<open>Prisma_City\<close>. The rows of \<^verbatim>\<open>"Country"\<close> (id, name) and of
  \<^verbatim>\<open>"Place"\<close> (id, cityId, countryId) have the shape of their client types.
\<close>

record City_row =
  col_id :: int
  col_name :: string
  col_countryId :: "int option"

text \<open>
  The three tables in insertion order, and the next value of the sequence behind each
  SERIAL column.
\<close>

record database =
  Country_table :: "Prisma_Country list"
  City_table :: "City_row list"
  Place_table :: "Prisma_Place list"
  Country_id_seq :: int
  City_id_seq :: int
  Place_id_seq :: int

text \<open>
  The id columns are \<^verbatim>\<open>SERIAL\<close> and the reference columns \<^verbatim>\<open>INTEGER\<close>: 32-bit signed
  integers. A value outside that range is refused, whether it comes from a sequence or
  from the caller of a query ("storage defines range").
\<close>

definition in_INTEGER :: "int \<Rightarrow> bool" where
  "in_INTEGER i = (- 2147483648 \<le> i \<and> i \<le> 2147483647)"

text \<open>The database right after the migration.\<close>

definition empty_db :: database where
  "empty_db =
     \<lparr>Country_table = [], City_table = [], Place_table = [],
      Country_id_seq = 1, City_id_seq = 1, Place_id_seq = 1\<rparr>"

text \<open>
  Modelled from the spec: the INSERT of the database server, which is not in the
  repository ("id (auto-generated, primary)", "name unique"). An INSERT takes the id
  from the sequence and appends the row. It is refused when the id is outside the range
  of the column, when the primary key is taken, and for \<^verbatim>\<open>"Country"\<close> and \<^verbatim>\<open>"City"\<close> when the name is taken and the unique index
  that schema.prisma declares (\<^verbatim>\<open>name String @unique\<close>) exists. The migration creates
  no such index, so whether it exists is the parameter \<open>name_index\<close>.
\<close>

definition insert_Country ::
  "bool \<Rightarrow> string \<Rightarrow> database \<Rightarrow> error + (Prisma_Country \<times> database)" where
  "insert_Country name_index nm db =
     (let row = \<lparr>country_id = Country_id_seq db, country_name = nm\<rparr> in
      if \<not> in_INTEGER (country_id row) then Inl ValueOutOfRange
      else if country_id row \<in> set (map country_id (Country_table db))
         \<or> (name_index \<and> nm \<in> set (map country_name (Country_table db)))
      then Inl UniqueConstraintViolation
      else Inr (row, db\<lparr>Country_table := Country_table db @ [row],
                        Country_id_seq := Country_id_seq db + 1\<rparr>))"

definition insert_City ::
  "bool \<Rightarrow> string \<Rightarrow> int \<Rightarrow> database \<Rightarrow> error + (City_row \<times> database)" where
  "insert_City name_index nm countryId db =
     (let row = \<lparr>col_id = City_id_seq db, col_name = nm, col_countryId = Some countryId\<rparr> in
      if \<not> in_INTEGER (col_id row) then Inl ValueOutOfRange
      else if col_id row \<in> set (map col_id (City_table db))
         \<or> (name_index \<and> nm \<in> set (map col_name (City_table db)))
      then Inl UniqueConstraintViolation
      else Inr (row, db\<lparr>City_table := City_table db @ [row],
                        City_id_seq := City_id_seq db + 1\<rparr>))"

definition insert_Place ::
  "int option \<Rightarrow> int option \<Rightarrow> database \<Rightarrow> error + (Prisma_Place \<times> database)" where
  "insert_Place cityId countryId db =
     (let row = \<lparr>place_id = Place_id_seq db, place_cityId = cityId,
                 place_countryId = countryId\<rparr> in
      if \<not> in_INTEGER (place_id row) then Inl ValueOutOfRange
      else if place_id row \<in> set (map place_id (Place_table db))
      then Inl UniqueConstraintViolation
      else Inr (row, db\<lparr>Place_table := Place_table db @ [row],
                        Place_id_seq := Place_id_seq db + 1\<rparr>))"


section \<open>The client's queries\<close>

definition find_Country :: "database \<Rightarrow> int \<Rightarrow> Prisma_Country option" where
  "find_Country db k = List.find (\<lambda>r. country_id r = k) (Country_table db)"

definition find_City :: "database \<Rightarrow> int \<Rightarrow> City_row option" where
  "find_City db c = List.find (\<lambda>r. col_id r = c) (City_table db)"

text \<open>
  Modelled from the spec: how the client reads a city ("belongs to exactly one Country
  (mandatory, non-nullable reference)"); the client is not in the repository.
  A row of \<^verbatim>\<open>"City"\<close> read as the client type with its required relation
  (\<^verbatim>\<open>country Country @relation(fields: [countryId], references: [id])\<close>,
  \<^verbatim>\<open>countryId Int\<close>): a row whose country is missing has no such reading, and the query
  fails.
\<close>

definition read_City :: "database \<Rightarrow> City_row \<Rightarrow> error + City_with_country" where
  "read_City db row =
     (case col_countryId row of
        None \<Rightarrow> Inl InconsistentQueryResult
      | Some k \<Rightarrow>
          (case find_Country db k of
             None \<Rightarrow> Inl InconsistentQueryResult
           | Some country \<Rightarrow>
               Inr \<lparr>city_id = col_id row, city_name = col_name row, city_countryId = k,
                    city_country = country\<rparr>))"

text \<open>
  Modelled from the spec: the query of the client, which is not in the repository
  ("fetch the raw record (eagerly including both optional relations and the city's
  nested country)", "absent if no record matches the identifier", "no upper bound
  enforced by this layer; storage defines range").
  \<^verbatim>\<open>prisma.place.findFirst({ where: { id },
       include: { city: { include: { country: true } }, country: true } })\<close>
  An id outside the range of the id column is refused with an error. Otherwise the
  result is the first row of the place table with the id, or null; with it the rows its
  references name. A reference to no row reads as null for the optional relations of a
  place.
\<close>

definition findFirst :: "database \<Rightarrow> int \<Rightarrow> error + PlaceResult" where
  "findFirst db i =
     (if \<not> in_INTEGER i then Inl ValueOutOfRange
      else
        (case List.find (\<lambda>p. place_id p = i) (Place_table db) of
           None \<Rightarrow> Inr None
         | Some p \<Rightarrow>
             (case (case opt_chain (place_cityId p) (find_City db) of
                      None \<Rightarrow> Inr None
                    | Some row \<Rightarrow> map_sum id Some (read_City db row)) of
                Inl e \<Rightarrow> Inl e
              | Inr city \<Rightarrow>
                  Inr (Some \<lparr>place_id = place_id p, place_cityId = place_cityId p,
                             place_countryId = place_countryId p,
                             place_country = opt_chain (place_countryId p) (find_Country db),
                             place_city = city\<rparr>))))"

text \<open>
  \<^verbatim>\<open>
  async function find (id: number): Promise<Place | null> {
    const result = await prisma.place.findFirst({ ... })
    return transformPlaceUnion(result)
  }
  \<close>
  A failure of the query is passed on to the caller.
\<close>

definition find :: "database \<Rightarrow> int \<Rightarrow> error + jsval" where
  "find db i = (case findFirst db i of Inl e \<Rightarrow> Inl e | Inr result \<Rightarrow> transformPlaceUnion result)"

section \<open>The seed script\<close>

text \<open>
  Modelled from the spec: the nested creation of the client, which is not in the
  repository ("creation of a Place together with a nested City (and that City's nested
  Country), or a Place together with a nested Country directly").
  \<^verbatim>\<open>prisma.place.create({ data: { city: { create: { name: cityName,
       country: { create: { name: countryName } } } } } })\<close>
  A record is inserted after the record it refers to, with that record's id: the
  country, the city under it, the place of the city. The call returns the place.
\<close>

definition create_city_place ::
  "bool \<Rightarrow> string \<Rightarrow> string \<Rightarrow> database \<Rightarrow> error + (Prisma_Place \<times> database)" where
  "create_city_place name_index cityName countryName db =
     (case insert_Country name_index countryName db of
        Inl e \<Rightarrow> Inl e
      | Inr (country, db1) \<Rightarrow>
          (case insert_City name_index cityName (country_id country) db1 of
             Inl e \<Rightarrow> Inl e
           | Inr (city, db2) \<Rightarrow> insert_Place (Some (col_id city)) None db2))"

text \<open>
  Modelled from the spec: the nested creation of the client, for a country.
  \<^verbatim>\<open>prisma.place.create({ data: { country: { create: { name: countryName } } } })\<close>
\<close>

definition create_country_place ::
  "bool \<Rightarrow> string \<Rightarrow> database \<Rightarrow> error + (Prisma_Place \<times> database)" where
  "create_country_place name_index countryName db =
     (case insert_Country name_index countryName db of
        Inl e \<Rightarrow> Inl e
      | Inr (country, db1) \<Rightarrow> insert_Place None (Some (country_id country)) db1)"

text \<open>
  \<^verbatim>\<open>main\<close> of the seed script: New York in the United States, Berlin in Germany, France.
\<close>

definition seed_main :: "bool \<Rightarrow> database \<Rightarrow> error + database" where
  "seed_main name_index db =
     (case create_city_place name_index ''New York'' ''United States'' db of
        Inl e \<Rightarrow> Inl e
      | Inr (_, db1) \<Rightarrow>
          (case create_city_place name_index ''Berlin'' ''Germany'' db1 of
             Inl e \<Rightarrow> Inl e
           | Inr (_, db2) \<Rightarrow>
               (case create_country_place name_index ''France'' db2 of
                  Inl e \<Rightarrow> Inl e
                | Inr (_, db3) \<Rightarrow> Inr db3)))"

section \<open>The reconstruction on a heap of objects\<close>

text \<open>
  JavaScript objects live in a heap and are held by reference; a spread copies the
  references, not the objects. The second model of the function runs on such a heap: a
  list of objects, in which a reference is an index and an allocation appends. No object
  is ever freed.
\<close>

datatype hval = HUndefined | HNull | HNum int | HStr string | HRef nat

type_synonym hobj = "string \<Rightarrow> hval option"

type_synonym heap = "hobj list"

definition alloc :: "hobj \<Rightarrow> heap \<Rightarrow> nat \<times> heap" where
  "alloc obj h = (length h, h @ [obj])"

text \<open>The test of an \<^verbatim>\<open>if\<close>, on any value.\<close>

fun h_truthy :: "hval \<Rightarrow> bool" where
  "h_truthy HUndefined = False"
| "h_truthy HNull = False"
| "h_truthy (HNum n) = (n \<noteq> 0)"
| "h_truthy (HStr s) = (s \<noteq> [])"
| "h_truthy (HRef a) = True"

text \<open>
  The two members the function reads. Neither a number nor a string has a property of
  these names, so reading them there gives undefined; on null and undefined the read is
  a TypeError, and \<^verbatim>\<open>?.\<close> gives undefined instead. A reference to no object cannot
  occur in JavaScript; the model reports it as an error of its own.
\<close>

datatype relation = Rel_city | Rel_country

fun relation_name :: "relation \<Rightarrow> string" where
  "relation_name Rel_city = ''city''"
| "relation_name Rel_country = ''country''"

fun h_member :: "heap \<Rightarrow> hval \<Rightarrow> relation \<Rightarrow> error + hval" where
  "h_member h HUndefined r = Inl TypeError"
| "h_member h HNull r = Inl TypeError"
| "h_member h (HNum n) r = Inr HUndefined"
| "h_member h (HStr s) r = Inr HUndefined"
| "h_member h (HRef a) r =
     (if a < length h
      then Inr (case (h ! a) (relation_name r) of None \<Rightarrow> HUndefined | Some x \<Rightarrow> x)
      else Inl DanglingReference)"

fun h_opt_member :: "heap \<Rightarrow> hval \<Rightarrow> relation \<Rightarrow> error + hval" where
  "h_opt_member h HUndefined r = Inr HUndefined"
| "h_opt_member h HNull r = Inr HUndefined"
| "h_opt_member h v r = h_member h v r"

text \<open>
  The own enumerable properties of a value, which a spread copies: those of the object
  for a reference, the characters under their indices for a string, none for a number,
  null or undefined.
\<close>

fun digits :: "nat \<Rightarrow> nat list" where
  "digits n = (if n < 10 then [n] else digits (n div 10) @ [n mod 10])"

definition index_key :: "nat \<Rightarrow> string" where
  "index_key i = map (\<lambda>d. char_of (d + 48)) (digits i)"

fun own_props :: "heap \<Rightarrow> hval \<Rightarrow> error + hobj" where
  "own_props h HUndefined = Inr Map.empty"
| "own_props h HNull = Inr Map.empty"
| "own_props h (HNum n) = Inr Map.empty"
| "own_props h (HStr s) =
     Inr (map_of (map (\<lambda>i. (index_key i, HStr [s ! i])) [0..<length s]))"
| "own_props h (HRef a) = (if a < length h then Inr (h ! a) else Inl DanglingReference)"

text \<open>Sequencing: the first error ends the evaluation.\<close>

definition bind_err :: "error + 'a \<Rightarrow> ('a \<Rightarrow> error + 'b) \<Rightarrow> error + 'b" where
  "bind_err x f = (case x of Inl e \<Rightarrow> Inl e | Inr a \<Rightarrow> f a)"

text \<open>
  \<^verbatim>\<open>transformPlaceUnion\<close> on the heap, expression by expression. The object literals
  allocate: the nested country object, then the result that refers to it.
\<close>

definition transformPlaceUnion_heap :: "hval \<Rightarrow> heap \<Rightarrow> error + (hval \<times> heap)" where
  "transformPlaceUnion_heap result h =
     bind_err (h_opt_member h result Rel_city) (\<lambda>test_city.
     if h_truthy test_city then
       bind_err (h_member h result Rel_city) (\<lambda>city.
       bind_err (own_props h city) (\<lambda>city_props.
       bind_err (h_member h result Rel_city) (\<lambda>city'.
       bind_err (h_member h city' Rel_country) (\<lambda>country.
       bind_err (own_props h country) (\<lambda>country_props.
         let (inner, h1) = alloc ([''type'' \<mapsto> HStr ''country''] ++ country_props) h;
             (outer, h2) = alloc ((Map.empty ++ city_props)
                                    (''type'' \<mapsto> HStr ''city'', ''country'' \<mapsto> HRef inner)) h1
         in Inr (HRef outer, h2))))))
     else
       bind_err (h_opt_member h result Rel_country) (\<lambda>test_country.
       if h_truthy test_country then
         bind_err (h_member h result Rel_country) (\<lambda>country.
         bind_err (own_props h country) (\<lambda>country_props.
           let (outer, h1) = alloc ((Map.empty ++ country_props)(''type'' \<mapsto> HStr ''country'')) h
           in Inr (HRef outer, h1)))
       else Inr (HNull, h)))"

text \<open>
  The structure of a value down to a depth: the value a reference leads to, property by
  property. A reference below the depth, or to no object, reads as undefined.
\<close>

fun snapshot :: "nat \<Rightarrow> heap \<Rightarrow> hval \<Rightarrow> jsval" where
  "snapshot d h HUndefined = JUndefined"
| "snapshot d h HNull = JNull"
| "snapshot d h (HNum n) = JNum n"
| "snapshot d h (HStr s) = JStr s"
| "snapshot 0 h (HRef a) = JUndefined"
| "snapshot (Suc d) h (HRef a) =
     (if a < length h then JObj (\<lambda>k. map_option (snapshot d h) ((h ! a) k)) else JUndefined)"


text \<open>A heap as JavaScript has it: every reference leads to an object.\<close>

fun valid :: "heap \<Rightarrow> hval \<Rightarrow> bool" where
  "valid h (HRef a) = (a < length h)"
| "valid h v = True"

definition closed :: "heap \<Rightarrow> bool" where
  "closed h = (\<forall>obj \<in> set h. \<forall>k x. obj k = Some x \<longrightarrow> valid h x)"

text \<open>The structure of a query result of the client, as a value.\<close>

definition js_of_Place :: "Place_with_relations \<Rightarrow> jsval" where
  "js_of_Place p =
     JObj [''id'' \<mapsto> JNum (place_id p),
           ''cityId'' \<mapsto> (case place_cityId p of None \<Rightarrow> JNull | Some c \<Rightarrow> JNum c),
           ''countryId'' \<mapsto> (case place_countryId p of None \<Rightarrow> JNull | Some k \<Rightarrow> JNum k),
           ''country'' \<mapsto> (case place_country p of None \<Rightarrow> JNull | Some k \<Rightarrow> JObj (props_Country k)),
           ''city'' \<mapsto> (case place_city p of None \<Rightarrow> JNull | Some c \<Rightarrow> JObj (props_City c))]"

definition js_of_PlaceResult :: "PlaceResult \<Rightarrow> jsval" where
  "js_of_PlaceResult r = (case r of None \<Rightarrow> JNull | Some p \<Rightarrow> js_of_Place p)"

section \<open>Runs of creation calls\<close>

text \<open>
  The two creation calls of the seed script, and a run of them from a database: the run
  records, for every place it creates, the id and the call that created it. It stops at
  the first failure, as \<^verbatim>\<open>main\<close> does.
\<close>

datatype creation = City_place string string | Country_place string

fun create_place ::
  "bool \<Rightarrow> creation \<Rightarrow> database \<Rightarrow> error + (Prisma_Place \<times> database)" where
  "create_place name_index (City_place cityName countryName) db =
     create_city_place name_index cityName countryName db"
| "create_place name_index (Country_place countryName) db =
     create_country_place name_index countryName db"

text \<open>The variant of the union a creation call stands for.\<close>

fun variant :: "creation \<Rightarrow> string" where
  "variant (City_place _ _) = ''city''"
| "variant (Country_place _) = ''country''"

fun create_places ::
  "bool \<Rightarrow> creation list \<Rightarrow> database \<Rightarrow> error + ((int \<times> creation) list \<times> database)" where
  "create_places name_index [] db = Inr ([], db)"
| "create_places name_index (c # cs) db =
     (case create_place name_index c db of
        Inl e \<Rightarrow> Inl e
      | Inr (p, db1) \<Rightarrow>
          (case create_places name_index cs db1 of
             Inl e \<Rightarrow> Inl e
           | Inr (log, db2) \<Rightarrow> Inr ((place_id p, c) # log, db2)))"

definition seed_creations :: "creation list" where
  "seed_creations =
     [City_place ''New York'' ''United States'', City_place ''Berlin'' ''Germany'',
      Country_place ''France'']"

text \<open>Scenario A: create the place of a city in a country, then look it up by its id.\<close>

definition create_city_place_then_find ::
  "bool \<Rightarrow> string \<Rightarrow> string \<Rightarrow> database \<Rightarrow> error + jsval" where
  "create_city_place_then_find name_index cityName countryName db =
     (case create_city_place name_index cityName countryName db of
        Inl e \<Rightarrow> Inl e
      | Inr (p, db') \<Rightarrow> find db' (place_id p))"

text \<open>
  What the foreign keys of the migration maintain: every reference of a place points to
  a row, and every city has a country that points to a row.
\<close>

definition consistent :: "database \<Rightarrow> bool" where
  "consistent db =
     ((\<forall>p \<in> set (Place_table db).
         set_option (place_cityId p) \<subseteq> set (map col_id (City_table db))
       \<and> set_option (place_countryId p) \<subseteq> set (map country_id (Country_table db)))
      \<and> (\<forall>c \<in> set (City_table db).
         col_countryId c \<noteq> None
       \<and> set_option (col_countryId c) \<subseteq> set (map country_id (Country_table db))))"

section \<open>The records of the seed script, as a lookup returns them\<close>

definition United_States :: Prisma_Country where
  "United_States = \<lparr>country_id = 1, country_name = ''United States''\<rparr>"

definition France :: Prisma_Country where
  "France = \<lparr>country_id = 3, country_name = ''France''\<rparr>"

definition New_York :: City_with_country where
  "New_York =
     \<lparr>city_id = 1, city_name = ''New York'', city_countryId = 1, city_country = United_States\<rparr>"

definition place_New_York :: Place_with_relations where
  "place_New_York =
     \<lparr>place_id = 1, place_cityId = Some 1, place_countryId = None,
      place_country = None, place_city = Some New_York\<rparr>"

definition place_France :: Place_with_relations where
  "place_France =
     \<lparr>place_id = 3, place_cityId = None, place_countryId = Some 3,
      place_country = Some France, place_city = None\<rparr>"

text \<open>The database after the first creation of the seed script.\<close>

definition db_New_York :: database where
  "db_New_York =
     \<lparr>Country_table = [\<lparr>country_id = 1, country_name = ''United States''\<rparr>],
      City_table = [\<lparr>col_id = 1, col_name = ''New York'', col_countryId = Some 1\<rparr>],
      Place_table = [\<lparr>place_id = 1, place_cityId = Some 1, place_countryId = None\<rparr>],
      Country_id_seq = 2, City_id_seq = 2, Place_id_seq = 2\<rparr>"

text \<open>
  A heap that holds the place of New York as the query returns it: the country, the city
  that refers to it, the place that refers to the city.
\<close>

definition heap_New_York :: heap where
  "heap_New_York =
     [[''id'' \<mapsto> HNum 1, ''name'' \<mapsto> HStr ''United States''],
      [''id'' \<mapsto> HNum 1, ''name'' \<mapsto> HStr ''New York'', ''countryId'' \<mapsto> HNum 1,
       ''country'' \<mapsto> HRef 0],
      [''id'' \<mapsto> HNum 1, ''cityId'' \<mapsto> HNum 1, ''countryId'' \<mapsto> HNull,
       ''country'' \<mapsto> HNull, ''city'' \<mapsto> HRef 1]]"

text \<open>A record no creation path produces: both relations set.\<close>

definition place_both :: Place_with_relations where
  "place_both =
     \<lparr>place_id = 4, place_cityId = Some 1, place_countryId = Some 3,
      place_country = Some France, place_city = Some New_York\<rparr>"

section \<open>The reconstruction, case by case\<close>

lemma transformPlaceUnion_null: "transformPlaceUnion None = Inr JNull"
  by (simp add: transformPlaceUnion_def truthy_def opt_chain_def)

lemma transformPlaceUnion_city:
  "place_city r = Some c \<Longrightarrow>
   transformPlaceUnion (Some r) =
     Inr (JObj ((props_City c)
       (''type'' \<mapsto> JStr ''city'',
        ''country'' \<mapsto> JObj ([''type'' \<mapsto> JStr ''country''] ++ props_Country (city_country c)))))"
  by (simp add: transformPlaceUnion_def truthy_def opt_chain_def member_def spread_def)

lemma transformPlaceUnion_country:
  "place_city r = None \<Longrightarrow> place_country r = Some k \<Longrightarrow>
   transformPlaceUnion (Some r) = Inr (JObj ((props_Country k)(''type'' \<mapsto> JStr ''country'')))"
  by (simp add: transformPlaceUnion_def truthy_def opt_chain_def member_def spread_def)

lemma transformPlaceUnion_neither:
  "place_city r = None \<Longrightarrow> place_country r = None \<Longrightarrow> transformPlaceUnion (Some r) = Inr JNull"
  by (simp add: transformPlaceUnion_def truthy_def opt_chain_def)

lemma tagged_Country:
  "[''type'' \<mapsto> JStr ''country''] ++ props_Country k = (props_Country k)(''type'' \<mapsto> JStr ''country'')"
  by (rule ext) (simp add: props_Country_def map_add_def)

lemma transformPlaceUnion_cases:
  "transformPlaceUnion result =
     (case result of
        None \<Rightarrow> Inr JNull
      | Some r \<Rightarrow>
          (case place_city r of
             Some c \<Rightarrow>
               Inr (JObj ((props_City c)
                 (''type'' \<mapsto> JStr ''city'',
                  ''country'' \<mapsto>
                     JObj ((props_Country (city_country c))(''type'' \<mapsto> JStr ''country'')))))
           | None \<Rightarrow>
               (case place_country r of
                  Some k \<Rightarrow> Inr (JObj ((props_Country k)(''type'' \<mapsto> JStr ''country'')))
                | None \<Rightarrow> Inr JNull)))"
  by (simp add: transformPlaceUnion_null transformPlaceUnion_city transformPlaceUnion_country
      transformPlaceUnion_neither tagged_Country split: option.splits)

lemma dom_props_Country: "dom (props_Country k) = {''id'', ''name''}"
  by (auto simp: props_Country_def split: if_splits)

lemma dom_props_City: "dom (props_City c) = {''id'', ''name'', ''countryId'', ''country''}"
  by (auto simp: props_City_def split: if_splits)

text \<open>
  C1. When the city relation is present and the country relation is absent, the result is
  an object whose \<open>type\<close> is \<open>city\<close> and whose \<open>country\<close> is the tagged form of the
  city's own country: that country's properties with \<open>type\<close> set to \<open>country\<close>, the
  very object the function returns for that country as a place of its own.
\<close>

theorem city_only_gives_city:
  assumes "place_city r = Some c" and "place_country r = None"
  shows "\<exists>m n. transformPlaceUnion (Some r) = Inr (JObj m)
           \<and> m ''type'' = Some (JStr ''city'')
           \<and> m ''country'' = Some (JObj n)
           \<and> n = (props_Country (city_country c))(''type'' \<mapsto> JStr ''country'')
           \<and> transformPlaceUnion
                (Some (r\<lparr>place_country := Some (city_country c), place_city := None\<rparr>))
              = Inr (JObj n)"
  using assms by (simp add: transformPlaceUnion_city transformPlaceUnion_country tagged_Country)

theorem city_only_gives_city_witness:
  "place_city place_New_York = Some New_York \<and> place_country place_New_York = None
   \<and> (\<exists>m n. transformPlaceUnion (Some place_New_York) = Inr (JObj m)
           \<and> m ''type'' = Some (JStr ''city'')
           \<and> m ''country'' = Some (JObj n)
           \<and> n = [''id'' \<mapsto> JNum 1, ''name'' \<mapsto> JStr ''United States'',
                  ''type'' \<mapsto> JStr ''country''])"
  using city_only_gives_city [of place_New_York New_York]
  by (auto simp: place_New_York_def New_York_def United_States_def props_Country_def)

text \<open>
  C2. When the country relation is present and the city relation is absent, the result is
  an object whose \<open>type\<close> is \<open>country\<close>, that carries the country's \<open>id\<close> and \<open>name\<close>,
  and that has no \<open>country\<close> property: its properties are \<open>id\<close>, \<open>name\<close> and \<open>type\<close>.
\<close>

theorem country_only_gives_country:
  assumes "place_country r = Some k" and "place_city r = None"
  shows "\<exists>m. transformPlaceUnion (Some r) = Inr (JObj m)
           \<and> m ''type'' = Some (JStr ''country'')
           \<and> m ''id'' = Some (JNum (country_id k))
           \<and> m ''name'' = Some (JStr (country_name k))
           \<and> m ''country'' = None
           \<and> dom m = {''id'', ''name'', ''type''}"
  using assms by (auto simp: transformPlaceUnion_country props_Country_def split: if_splits)

theorem country_only_gives_country_witness:
  "place_country place_France = Some France \<and> place_city place_France = None
   \<and> (\<exists>m. transformPlaceUnion (Some place_France) = Inr (JObj m)
           \<and> m ''type'' = Some (JStr ''country'')
           \<and> m ''id'' = Some (JNum 3)
           \<and> m ''name'' = Some (JStr ''France'')
           \<and> m ''country'' = None
           \<and> dom m = {''id'', ''name'', ''type''})"
  using country_only_gives_country [of place_France France]
  by (simp add: place_France_def France_def)

text \<open>
  C3. When both relations are present, the result is the \<open>city\<close>-tagged object built from
  the city relation alone: its \<open>country\<close> is the city's own country, and replacing the
  country relation by any other value (or by none) leaves the result unchanged.
\<close>

theorem both_gives_city:
  assumes "place_city r = Some c" and "place_country r = Some k"
  shows "transformPlaceUnion (Some r) =
           Inr (JObj ((props_City c)
             (''type'' \<mapsto> JStr ''city'',
              ''country'' \<mapsto>
                 JObj ((props_Country (city_country c))(''type'' \<mapsto> JStr ''country'')))))
         \<and> transformPlaceUnion (Some (r\<lparr>place_country := k'\<rparr>)) = transformPlaceUnion (Some r)"
  using assms by (simp add: transformPlaceUnion_city tagged_Country)

theorem both_gives_city_witness:
  "place_city place_both = Some New_York \<and> place_country place_both = Some France
   \<and> transformPlaceUnion (Some place_both) =
       Inr (JObj [''id'' \<mapsto> JNum 1, ''name'' \<mapsto> JStr ''New York'', ''countryId'' \<mapsto> JNum 1,
                  ''type'' \<mapsto> JStr ''city'',
                  ''country'' \<mapsto> JObj [''id'' \<mapsto> JNum 1, ''name'' \<mapsto> JStr ''United States'',
                                         ''type'' \<mapsto> JStr ''country'']])
   \<and> transformPlaceUnion (Some (place_both\<lparr>place_country := None\<rparr>))
       = transformPlaceUnion (Some place_both)"
  using both_gives_city [of place_both New_York France None]
  by (simp add: place_both_def New_York_def United_States_def France_def props_City_def
      props_Country_def)

section \<open>Lookups\<close>

lemma find_no_row:
  assumes "in_INTEGER i" and "i \<notin> set (map place_id (Place_table db))"
  shows "find db i = Inr JNull"
proof -
  from assms(2) have "List.find (\<lambda>p. place_id p = i) (Place_table db) = None"
    by (auto simp: find_None_iff)
  with assms(1) show ?thesis
    by (simp add: find_def findFirst_def transformPlaceUnion_null)
qed

lemma find_out_of_range: "\<not> in_INTEGER i \<Longrightarrow> find db i = Inl ValueOutOfRange"
  by (simp add: find_def findFirst_def)

text \<open>
  C4, as stated. In the database after the first creation of the seed script no row of
  the place table carries the identifier 2147483648, and yet the lookup of it does not
  return null: the identifier is outside the range of the id column, and the lookup
  raises.
\<close>

theorem lookup_out_of_range_raises:
  "(2147483648 :: int) \<notin> set (map place_id (Place_table db_New_York))
   \<and> find db_New_York 2147483648 = Inl ValueOutOfRange
   \<and> find db_New_York 2147483648 \<noteq> Inr JNull"
  by (simp add: db_New_York_def find_def findFirst_def in_INTEGER_def)

text \<open>
  C4, amended. The result is null exactly when the input is null or neither relation is
  present; and a lookup of an identifier within the range of the id column that no row
  of the place table carries returns null as a value, not an error. A lookup of an
  identifier outside that range raises.
\<close>

theorem null_iff_nothing_present_in_range:
  "(transformPlaceUnion result = Inr JNull)
     = (result = None \<or> (\<exists>r. result = Some r \<and> place_city r = None \<and> place_country r = None))
   \<and> (in_INTEGER i \<and> i \<notin> set (map place_id (Place_table db)) \<longrightarrow> find db i = Inr JNull)
   \<and> (\<not> in_INTEGER i \<longrightarrow> find db i = Inl ValueOutOfRange)"
  by (auto simp: transformPlaceUnion_cases find_no_row find_out_of_range split: option.splits)

theorem null_iff_nothing_present_in_range_witness:
  "transformPlaceUnion None = Inr JNull
   \<and> transformPlaceUnion (Some place_France) \<noteq> Inr JNull
   \<and> in_INTEGER 7
   \<and> (7::int) \<notin> set (map place_id (Place_table db_New_York))
   \<and> find db_New_York 7 = Inr JNull
   \<and> \<not> in_INTEGER (- 2147483649)
   \<and> find db_New_York (- 2147483649) = Inl ValueOutOfRange"
  using null_iff_nothing_present_in_range [of None 7 db_New_York]
    null_iff_nothing_present_in_range [of "Some place_France" "- 2147483649" db_New_York]
  by (simp add: db_New_York_def place_France_def in_INTEGER_def)

section \<open>Totality and the frame of the reconstruction\<close>

text \<open>
  C9. The reconstruction raises no error on any input of its type: every input, also one
  with both relations or with none, is mapped to null, to a \<open>city\<close>-tagged object or to a
  \<open>country\<close>-tagged object.
\<close>

theorem total_three_outcomes:
  "(\<forall>e. transformPlaceUnion result \<noteq> Inl e)
   \<and> (transformPlaceUnion result = Inr JNull
      \<or> (\<exists>m. transformPlaceUnion result = Inr (JObj m) \<and> m ''type'' = Some (JStr ''city''))
      \<or> (\<exists>m. transformPlaceUnion result = Inr (JObj m) \<and> m ''type'' = Some (JStr ''country'')))"
  by (simp add: transformPlaceUnion_cases split: option.splits)

text \<open>
  C10. In the city branch every property of the city other than \<open>type\<close> and \<open>country\<close>
  (so \<open>id\<close>, \<open>name\<close> and \<open>countryId\<close>) is in the result unchanged, \<open>type\<close> is the only
  property added, and \<open>country\<close> holds the city's country with every property unchanged
  and \<open>type\<close> added. In the country branch every property of the country is in the result
  unchanged and \<open>type\<close> is the only property added.
\<close>

theorem fields_preserved:
  "(place_city r = Some c \<longrightarrow>
      (\<exists>m n. transformPlaceUnion (Some r) = Inr (JObj m)
         \<and> (\<forall>f. f \<noteq> ''type'' \<and> f \<noteq> ''country'' \<longrightarrow> m f = props_City c f)
         \<and> m ''id'' = Some (JNum (city_id c))
         \<and> m ''name'' = Some (JStr (city_name c))
         \<and> m ''countryId'' = Some (JNum (city_countryId c))
         \<and> m ''type'' = Some (JStr ''city'')
         \<and> dom m = insert ''type'' (dom (props_City c))
         \<and> m ''country'' = Some (JObj n)
         \<and> (\<forall>f. f \<noteq> ''type'' \<longrightarrow> n f = props_Country (city_country c) f)
         \<and> n ''type'' = Some (JStr ''country'')
         \<and> dom n = insert ''type'' (dom (props_Country (city_country c)))))
   \<and> (place_city r = None \<and> place_country r = Some k \<longrightarrow>
      (\<exists>m. transformPlaceUnion (Some r) = Inr (JObj m)
         \<and> (\<forall>f. f \<noteq> ''type'' \<longrightarrow> m f = props_Country k f)
         \<and> m ''id'' = Some (JNum (country_id k))
         \<and> m ''name'' = Some (JStr (country_name k))
         \<and> m ''type'' = Some (JStr ''country'')
         \<and> dom m = insert ''type'' (dom (props_Country k))))"
proof (intro conjI impI)
  assume "place_city r = Some c"
  then show "\<exists>m n. transformPlaceUnion (Some r) = Inr (JObj m)
         \<and> (\<forall>f. f \<noteq> ''type'' \<and> f \<noteq> ''country'' \<longrightarrow> m f = props_City c f)
         \<and> m ''id'' = Some (JNum (city_id c))
         \<and> m ''name'' = Some (JStr (city_name c))
         \<and> m ''countryId'' = Some (JNum (city_countryId c))
         \<and> m ''type'' = Some (JStr ''city'')
         \<and> dom m = insert ''type'' (dom (props_City c))
         \<and> m ''country'' = Some (JObj n)
         \<and> (\<forall>f. f \<noteq> ''type'' \<longrightarrow> n f = props_Country (city_country c) f)
         \<and> n ''type'' = Some (JStr ''country'')
         \<and> dom n = insert ''type'' (dom (props_Country (city_country c)))"
    by (auto simp: transformPlaceUnion_cases dom_props_City) (simp_all add: props_City_def)
next
  assume "place_city r = None \<and> place_country r = Some k"
  then show "\<exists>m. transformPlaceUnion (Some r) = Inr (JObj m)
         \<and> (\<forall>f. f \<noteq> ''type'' \<longrightarrow> m f = props_Country k f)
         \<and> m ''id'' = Some (JNum (country_id k))
         \<and> m ''name'' = Some (JStr (country_name k))
         \<and> m ''type'' = Some (JStr ''country'')
         \<and> dom m = insert ''type'' (dom (props_Country k))"
    by (auto simp: transformPlaceUnion_cases) (simp_all add: props_Country_def)
qed

theorem fields_preserved_witness:
  "place_city place_New_York = Some New_York
   \<and> transformPlaceUnion (Some place_New_York) =
       Inr (JObj [''id'' \<mapsto> JNum 1, ''name'' \<mapsto> JStr ''New York'', ''countryId'' \<mapsto> JNum 1,
                  ''type'' \<mapsto> JStr ''city'',
                  ''country'' \<mapsto> JObj [''id'' \<mapsto> JNum 1, ''name'' \<mapsto> JStr ''United States'',
                                         ''type'' \<mapsto> JStr ''country'']])
   \<and> (\<exists>m. transformPlaceUnion (Some place_New_York) = Inr (JObj m)
        \<and> dom m = {''id'', ''name'', ''countryId'', ''country'', ''type''})
   \<and> place_city place_France = None \<and> place_country place_France = Some France
   \<and> (\<exists>m. transformPlaceUnion (Some place_France) = Inr (JObj m)
        \<and> m ''id'' = Some (JNum 3) \<and> m ''name'' = Some (JStr ''France'')
        \<and> dom m = {''id'', ''name'', ''type''})"
  using fields_preserved [of place_New_York New_York France]
    fields_preserved [of place_France New_York France]
  by (auto simp: place_New_York_def New_York_def United_States_def place_France_def France_def
      transformPlaceUnion_cases props_City_def props_Country_def)

section \<open>Creation and lookup\<close>

lemma find_snoc_fresh:
  "k \<notin> set (map f xs) \<Longrightarrow> f x = k \<Longrightarrow> List.find (\<lambda>r. f r = k) (xs @ [x]) = Some x"
  by (induction xs) auto

lemma find_append_old:
  "k \<in> set (map f xs) \<Longrightarrow> List.find (\<lambda>r. f r = k) (xs @ ys) = List.find (\<lambda>r. f r = k) xs"
  by (induction xs) auto


lemma find_old_Some:
  "k \<in> set (map f xs) \<Longrightarrow> \<exists>x. List.find (\<lambda>r. f r = k) xs = Some x \<and> x \<in> set xs \<and> f x = k"
  by (induction xs) auto

lemma find_Country_stable:
  assumes "Country_table db' = Country_table db @ ks"
    and "k \<in> set (map country_id (Country_table db))"
  shows "find_Country db' k = find_Country db k"
  using assms by (simp add: find_Country_def find_append_old)

lemma read_City_stable:
  assumes "consistent db" and "Country_table db' = Country_table db @ ks"
    and "row \<in> set (City_table db)"
  shows "read_City db' row = read_City db row"
proof -
  from assms(1,3) obtain k where k: "col_countryId row = Some k"
    "k \<in> set (map country_id (Country_table db))"
    by (auto simp: consistent_def)
  then show ?thesis
    using find_Country_stable [OF assms(2), of k] by (simp add: read_City_def)
qed

lemma findFirst_stable:
  assumes con: "consistent db"
    and ks: "Country_table db' = Country_table db @ ks"
    and cs: "City_table db' = City_table db @ cs"
    and ps: "Place_table db' = Place_table db @ ps"
    and i: "i \<in> set (map place_id (Place_table db))"
  shows "findFirst db' i = findFirst db i"
proof -
  from find_old_Some [OF i] obtain p where p:
    "List.find (\<lambda>r. place_id r = i) (Place_table db) = Some p" "p \<in> set (Place_table db)"
    by blast
  have p': "List.find (\<lambda>r. place_id r = i) (Place_table db') = Some p"
    using p(1) i by (simp add: ps find_append_old)
  have country: "opt_chain (place_countryId p) (find_Country db')
      = opt_chain (place_countryId p) (find_Country db)"
  proof (cases "place_countryId p")
    case None
    then show ?thesis by (simp add: opt_chain_def)
  next
    case (Some k)
    with con p(2) have "k \<in> set (map country_id (Country_table db))"
      by (auto simp: consistent_def)
    with Some show ?thesis
      by (simp add: opt_chain_def find_Country_stable [OF ks])
  qed
  have city: "(case opt_chain (place_cityId p) (find_City db') of
                   None \<Rightarrow> Inr None
                 | Some row \<Rightarrow> map_sum id Some (read_City db' row))
     = (case opt_chain (place_cityId p) (find_City db) of
                   None \<Rightarrow> Inr None
                 | Some row \<Rightarrow> map_sum id Some (read_City db row))"
  proof (cases "place_cityId p")
    case None
    then show ?thesis by (simp add: opt_chain_def)
  next
    case (Some c)
    with con p(2) have c: "c \<in> set (map col_id (City_table db))"
      by (auto simp: consistent_def)
    from find_old_Some [OF c] obtain row where row:
      "List.find (\<lambda>r. col_id r = c) (City_table db) = Some row" "row \<in> set (City_table db)"
      by blast
    have "find_City db' c = Some row" "find_City db c = Some row"
      using row(1) c by (simp_all add: find_City_def cs find_append_old)
    with Some show ?thesis
      by (simp add: opt_chain_def read_City_stable [OF con ks row(2)])
  qed
  show ?thesis
    unfolding findFirst_def p' p(1) by (simp add: country city split: sum.splits)
qed

lemma create_city_place_effect:
  assumes "create_city_place u cn kn db = Inr (p, db')"
  shows "Country_table db' = Country_table db @ [\<lparr>country_id = Country_id_seq db, country_name = kn\<rparr>]"
    and "City_table db' = City_table db @ [\<lparr>col_id = City_id_seq db, col_name = cn, col_countryId = Some (Country_id_seq db)\<rparr>]"
    and "Place_table db' = Place_table db @ [p]"
    and "p = \<lparr>place_id = Place_id_seq db, place_cityId = Some (City_id_seq db), place_countryId = None\<rparr>"
    and "Place_id_seq db \<notin> set (map place_id (Place_table db))"
    and "City_id_seq db \<notin> set (map col_id (City_table db))"
    and "Country_id_seq db \<notin> set (map country_id (Country_table db))"
  using assms
  by (auto simp: create_city_place_def insert_Country_def insert_City_def insert_Place_def Let_def split: if_splits)

lemma create_country_place_effect:
  assumes "create_country_place u kn db = Inr (p, db')"
  shows "Country_table db' = Country_table db @ [\<lparr>country_id = Country_id_seq db, country_name = kn\<rparr>]"
    and "City_table db' = City_table db @ []"
    and "Place_table db' = Place_table db @ [p]"
    and "p = \<lparr>place_id = Place_id_seq db, place_cityId = None, place_countryId = Some (Country_id_seq db)\<rparr>"
    and "Place_id_seq db \<notin> set (map place_id (Place_table db))"
    and "Country_id_seq db \<notin> set (map country_id (Country_table db))"
  using assms
  by (auto simp: create_country_place_def insert_Country_def insert_Place_def Let_def split: if_splits)

lemma create_city_place_consistent:
  assumes "create_city_place u cn kn db = Inr (p, db')" and "consistent db"
  shows "consistent db'"
  using assms(2) create_city_place_effect(1-4) [OF assms(1)]
  by (auto simp: consistent_def)

lemma create_country_place_consistent:
  assumes "create_country_place u kn db = Inr (p, db')" and "consistent db"
  shows "consistent db'"
  using assms(2) create_country_place_effect(1-4) [OF assms(1)]
  by (auto simp: consistent_def)


lemma create_place_consistent:
  assumes "create_place u c db = Inr (p, db')" and "consistent db"
  shows "consistent db'"
  using assms
  by (cases c) (auto intro: create_city_place_consistent create_country_place_consistent)

lemma create_place_stable:
  assumes "create_place u c db = Inr (p, db')" and "consistent db"
    and "i \<in> set (map place_id (Place_table db))"
  shows "find db' i = find db i"
proof (cases c)
  case (City_place cn kn)
  with assms(1) have "create_city_place u cn kn db = Inr (p, db')" by simp
  from findFirst_stable [OF assms(2) create_city_place_effect(1-3) [OF this] assms(3)]
  show ?thesis by (simp add: find_def)
next
  case (Country_place kn)
  with assms(1) have "create_country_place u kn db = Inr (p, db')" by simp
  from findFirst_stable [OF assms(2) create_country_place_effect(1-3) [OF this] assms(3)]
  show ?thesis by (simp add: find_def)
qed

lemma create_place_ids:
  assumes "create_place u c db = Inr (p, db')"
  shows "set (map place_id (Place_table db')) = insert (place_id p) (set (map place_id (Place_table db)))"
proof (cases c)
  case (City_place cn kn)
  with assms have "create_city_place u cn kn db = Inr (p, db')" by simp
  from create_city_place_effect(3) [OF this] show ?thesis by simp
next
  case (Country_place kn)
  with assms have "create_country_place u kn db = Inr (p, db')" by simp
  from create_country_place_effect(3) [OF this] show ?thesis by simp
qed

lemma create_city_place_rows:
  assumes "create_city_place u cn kn db = Inr (p, db')"
  shows "p = \<lparr>place_id = Place_id_seq db, place_cityId = Some (City_id_seq db), place_countryId = None\<rparr>
    \<and> findFirst db' (place_id p) = Inr (Some
         \<lparr>place_id = Place_id_seq db, place_cityId = Some (City_id_seq db), place_countryId = None,
          place_country = None,
          place_city = Some \<lparr>city_id = City_id_seq db, city_name = cn,
             city_countryId = Country_id_seq db,
             city_country = \<lparr>country_id = Country_id_seq db, country_name = kn\<rparr>\<rparr>\<rparr>)"
  using assms
  apply (simp add: create_city_place_def insert_Country_def insert_City_def insert_Place_def Let_def split: if_splits)
  apply (clarsimp simp: findFirst_def find_snoc_fresh opt_chain_def find_City_def find_Country_def read_City_def)
  done

lemma create_country_place_rows:
  assumes "create_country_place u kn db = Inr (p, db')"
  shows "p = \<lparr>place_id = Place_id_seq db, place_cityId = None, place_countryId = Some (Country_id_seq db)\<rparr>
    \<and> findFirst db' (place_id p) = Inr (Some
         \<lparr>place_id = Place_id_seq db, place_cityId = None, place_countryId = Some (Country_id_seq db),
          place_country = Some \<lparr>country_id = Country_id_seq db, country_name = kn\<rparr>,
          place_city = None\<rparr>)"
  using assms
  apply (simp add: create_country_place_def insert_Country_def insert_Place_def Let_def split: if_splits)
  apply (clarsimp simp: findFirst_def find_snoc_fresh opt_chain_def find_City_def find_Country_def read_City_def)
  done

lemma find_after_create_city_place:
  assumes "create_city_place u cn kn db = Inr (p, db')"
  shows "find db' (place_id p) =
    Inr (JObj [''id'' \<mapsto> JNum (City_id_seq db), ''name'' \<mapsto> JStr cn,
               ''countryId'' \<mapsto> JNum (Country_id_seq db), ''type'' \<mapsto> JStr ''city'',
               ''country'' \<mapsto> JObj [''id'' \<mapsto> JNum (Country_id_seq db), ''name'' \<mapsto> JStr kn,
                  ''type'' \<mapsto> JStr ''country'']])"
  using create_city_place_rows [OF assms]
  by (clarsimp simp: find_def transformPlaceUnion_cases props_City_def props_Country_def)

lemma find_after_create_country_place:
  assumes "create_country_place u kn db = Inr (p, db')"
  shows "find db' (place_id p) =
    Inr (JObj [''id'' \<mapsto> JNum (Country_id_seq db), ''name'' \<mapsto> JStr kn,
               ''type'' \<mapsto> JStr ''country''])"
  using create_country_place_rows [OF assms]
  by (clarsimp simp: find_def transformPlaceUnion_cases props_Country_def)


lemma find_after_create_place:
  assumes "create_place u c db = Inr (p, db')"
  shows "\<exists>m. find db' (place_id p) = Inr (JObj m) \<and> m ''type'' = Some (JStr (variant c))"
  using assms
  by (cases c) (auto dest!: find_after_create_city_place find_after_create_country_place)

lemma create_places_stable:
  assumes "consistent db" and "create_places u cs db = Inr (log, db')"
  shows "consistent db' \<and>
    (\<forall>i \<in> set (map place_id (Place_table db)).
       i \<in> set (map place_id (Place_table db')) \<and> find db' i = find db i)"
  using assms
proof (induction cs arbitrary: db log)
  case Nil
  then show ?case by simp
next
  case (Cons c cs)
  from Cons.prems(2) obtain p db1 log1 where
    step: "create_place u c db = Inr (p, db1)" and
    rest: "create_places u cs db1 = Inr (log1, db')"
    by (auto split: sum.splits)
  have con1: "consistent db1"
    by (rule create_place_consistent [OF step Cons.prems(1)])
  from Cons.IH [OF con1 rest] have
    con': "consistent db'" and
    keep: "\<And>i. i \<in> set (map place_id (Place_table db1)) \<Longrightarrow>
       i \<in> set (map place_id (Place_table db')) \<and> find db' i = find db1 i"
    by blast+
  show ?case
  proof (intro conjI ballI)
    show "consistent db'" by (rule con')
  next
    fix i assume i: "i \<in> set (map place_id (Place_table db))"
    then have i1: "i \<in> set (map place_id (Place_table db1))"
      using create_place_ids [OF step] by auto
    show "i \<in> set (map place_id (Place_table db'))"
      using keep [OF i1] by simp
    show "find db' i = find db i"
      using keep [OF i1] create_place_stable [OF step Cons.prems(1) i] by simp
  qed
qed

lemma create_places_roundtrip:
  assumes "consistent db" and "create_places u cs db = Inr (log, db')"
  shows "\<forall>(i, c) \<in> set log.
    \<exists>m. find db' i = Inr (JObj m) \<and> m ''type'' = Some (JStr (variant c))"
  using assms
proof (induction cs arbitrary: db log)
  case Nil
  then show ?case by simp
next
  case (Cons c cs)
  from Cons.prems(2) obtain p db1 log1 where
    step: "create_place u c db = Inr (p, db1)" and
    rest: "create_places u cs db1 = Inr (log1, db')" and
    log: "log = (place_id p, c) # log1"
    by (auto split: sum.splits)
  have con1: "consistent db1"
    by (rule create_place_consistent [OF step Cons.prems(1)])
  have "place_id p \<in> set (map place_id (Place_table db1))"
    using create_place_ids [OF step] by auto
  with create_places_stable [OF con1 rest] have "find db' (place_id p) = find db1 (place_id p)"
    by blast
  with find_after_create_place [OF step]
  have head: "\<exists>m. find db' (place_id p) = Inr (JObj m) \<and> m ''type'' = Some (JStr (variant c))"
    by simp
  from Cons.IH [OF con1 rest] head show ?case
    by (simp add: log)
qed

lemma consistent_empty_db: "consistent empty_db"
  by (simp add: consistent_def empty_db_def)


lemma create_city_place_empty_db:
  "create_city_place u ''New York'' ''United States'' empty_db =
     Inr (\<lparr>place_id = 1, place_cityId = Some 1, place_countryId = None\<rparr>, db_New_York)"
  by (simp add: create_city_place_def insert_Country_def insert_City_def insert_Place_def
      empty_db_def db_New_York_def in_INTEGER_def Let_def)

lemma seed_main_run:
  "seed_main u db = map_sum id snd (create_places u seed_creations db)"
  by (simp add: seed_main_def seed_creations_def split: sum.splits prod.splits)

text \<open>
  C6, as stated. After the creation of New York in the United States on the empty
  database, the lookup of the created place is not equal to the value with the three
  properties \<open>type\<close>, \<open>name\<close> and \<open>country\<close> (itself with \<open>type\<close> and \<open>name\<close>): the
  result has an \<open>id\<close>, the expected value has none.
\<close>

theorem scenario_A_not_three_fields:
  "create_city_place_then_find False ''New York'' ''United States'' empty_db \<noteq>
     Inr (JObj [''type'' \<mapsto> JStr ''city'', ''name'' \<mapsto> JStr ''New York'',
                ''country'' \<mapsto> JObj [''type'' \<mapsto> JStr ''country'',
                                       ''name'' \<mapsto> JStr ''United States'']])"
proof
  assume eq: "create_city_place_then_find False ''New York'' ''United States'' empty_db =
     Inr (JObj [''type'' \<mapsto> JStr ''city'', ''name'' \<mapsto> JStr ''New York'',
                ''country'' \<mapsto> JObj [''type'' \<mapsto> JStr ''country'',
                                       ''name'' \<mapsto> JStr ''United States'']])"
  have "create_city_place_then_find False ''New York'' ''United States'' empty_db =
    Inr (JObj [''id'' \<mapsto> JNum (City_id_seq empty_db), ''name'' \<mapsto> JStr ''New York'',
               ''countryId'' \<mapsto> JNum (Country_id_seq empty_db), ''type'' \<mapsto> JStr ''city'',
               ''country'' \<mapsto> JObj [''id'' \<mapsto> JNum (Country_id_seq empty_db),
                  ''name'' \<mapsto> JStr ''United States'', ''type'' \<mapsto> JStr ''country'']])"
    using find_after_create_city_place [OF create_city_place_empty_db [of False]]
    by (simp add: create_city_place_then_find_def create_city_place_empty_db)
  with eq have
    "[''id'' \<mapsto> JNum (City_id_seq empty_db), ''name'' \<mapsto> JStr ''New York'',
      ''countryId'' \<mapsto> JNum (Country_id_seq empty_db), ''type'' \<mapsto> JStr ''city'',
      ''country'' \<mapsto> JObj [''id'' \<mapsto> JNum (Country_id_seq empty_db),
         ''name'' \<mapsto> JStr ''United States'', ''type'' \<mapsto> JStr ''country'']] ''id''
     = [''type'' \<mapsto> JStr ''city'', ''name'' \<mapsto> JStr ''New York'',
        ''country'' \<mapsto> JObj [''type'' \<mapsto> JStr ''country'',
                               ''name'' \<mapsto> JStr ''United States'']] ''id''"
    by simp
  then show False by simp
qed

text \<open>
  C6, amended. After the creation of New York in the United States on any database, the
  lookup of the created place returns the object with \<open>type\<close> \<open>city\<close>, \<open>name\<close>
  \<open>New York\<close> and a \<open>country\<close> with \<open>type\<close> \<open>country\<close> and \<open>name\<close> \<open>United States\<close>,
  and with them the generated columns: the \<open>id\<close> and \<open>countryId\<close> of the city and the
  \<open>id\<close> of the country.
\<close>

theorem scenario_A_full_object:
  assumes "create_city_place name_index ''New York'' ''United States'' db = Inr (p, db')"
  shows "\<exists>m n. find db' (place_id p) = Inr (JObj m)
     \<and> m = [''id'' \<mapsto> JNum (City_id_seq db), ''name'' \<mapsto> JStr ''New York'',
            ''countryId'' \<mapsto> JNum (Country_id_seq db), ''type'' \<mapsto> JStr ''city'',
            ''country'' \<mapsto> JObj n]
     \<and> n = [''id'' \<mapsto> JNum (Country_id_seq db), ''name'' \<mapsto> JStr ''United States'',
            ''type'' \<mapsto> JStr ''country'']
     \<and> m ''type'' = Some (JStr ''city'') \<and> m ''name'' = Some (JStr ''New York'')
     \<and> n ''type'' = Some (JStr ''country'') \<and> n ''name'' = Some (JStr ''United States'')"
  using find_after_create_city_place [OF assms] by simp

theorem scenario_A_full_object_witness:
  "create_city_place False ''New York'' ''United States'' empty_db =
     Inr (\<lparr>place_id = 1, place_cityId = Some 1, place_countryId = None\<rparr>, db_New_York)
   \<and> find db_New_York 1 =
       Inr (JObj [''id'' \<mapsto> JNum 1, ''name'' \<mapsto> JStr ''New York'', ''countryId'' \<mapsto> JNum 1,
                  ''type'' \<mapsto> JStr ''city'',
                  ''country'' \<mapsto> JObj [''id'' \<mapsto> JNum 1, ''name'' \<mapsto> JStr ''United States'',
                                         ''type'' \<mapsto> JStr ''country'']])"
proof -
  have created: "create_city_place False ''New York'' ''United States'' empty_db =
     Inr (\<lparr>place_id = 1, place_cityId = Some 1, place_countryId = None\<rparr>, db_New_York)"
    by (rule create_city_place_empty_db)
  from scenario_A_full_object [OF created]
  have "find db_New_York 1 =
       Inr (JObj [''id'' \<mapsto> JNum 1, ''name'' \<mapsto> JStr ''New York'', ''countryId'' \<mapsto> JNum 1,
                  ''type'' \<mapsto> JStr ''city'',
                  ''country'' \<mapsto> JObj [''id'' \<mapsto> JNum 1, ''name'' \<mapsto> JStr ''United States'',
                                         ''type'' \<mapsto> JStr ''country'']])"
    by (simp add: empty_db_def)
  with created show ?thesis by simp
qed

text \<open>
  C7. In the database that a run of creation calls leaves, started on the empty database
  or on any database whose references point to rows, every place the run created is
  found by its id, and its reconstruction is an object whose \<open>type\<close> is the variant of
  the call that created it.
\<close>

theorem roundtrip_discriminator:
  assumes "consistent db0" and "create_places name_index cs db0 = Inr (log, db)"
  shows "\<forall>(i, c) \<in> set log.
    \<exists>m. find db i = Inr (JObj m) \<and> m ''type'' = Some (JStr (variant c))"
  by (rule create_places_roundtrip [OF assms])

theorem roundtrip_discriminator_witness:
  "consistent empty_db
   \<and> (\<exists>db. create_places True seed_creations empty_db =
         Inr ([(1, City_place ''New York'' ''United States''),
               (2, City_place ''Berlin'' ''Germany''),
               (3, Country_place ''France'')], db)
        \<and> (\<exists>m. find db 1 = Inr (JObj m) \<and> m ''type'' = Some (JStr ''city''))
        \<and> (\<exists>m. find db 2 = Inr (JObj m) \<and> m ''type'' = Some (JStr ''city''))
        \<and> (\<exists>m. find db 3 = Inr (JObj m) \<and> m ''type'' = Some (JStr ''country'')))"
proof -
  obtain db where run: "create_places True seed_creations empty_db =
         Inr ([(1, City_place ''New York'' ''United States''),
               (2, City_place ''Berlin'' ''Germany''),
               (3, Country_place ''France'')], db)"
    by (simp add: seed_creations_def create_city_place_def create_country_place_def
        insert_Country_def insert_City_def insert_Place_def empty_db_def in_INTEGER_def
        Let_def)
  from roundtrip_discriminator [OF consistent_empty_db run] run consistent_empty_db
  show ?thesis by simp
qed

section \<open>The reference from a city to its country\<close>







section \<open>Two runs on a heap\<close>

lemma h_member_append:
  "h_member h v r = Inr x \<Longrightarrow> h_member (h @ hs) v r = Inr x"
  by (cases v) (auto simp: nth_append split: if_splits)

lemma h_opt_member_append:
  "h_opt_member h v r = Inr x \<Longrightarrow> h_opt_member (h @ hs) v r = Inr x"
  by (cases v) (auto simp: nth_append split: if_splits)

lemma own_props_append:
  "own_props h v = Inr m \<Longrightarrow> own_props (h @ hs) v = Inr m"
  by (cases v) (auto simp: nth_append split: if_splits)

lemma heap_run_city:
  assumes "h_opt_member h v Rel_city = Inr t" and "h_truthy t"
    and "h_member h v Rel_city = Inr c" and "own_props h c = Inr cps"
    and "h_member h c Rel_country = Inr k" and "own_props h k = Inr kps"
  shows "transformPlaceUnion_heap v h =
    Inr (HRef (Suc (length h)),
         h @ [[''type'' \<mapsto> HStr ''country''] ++ kps,
              (Map.empty ++ cps)(''type'' \<mapsto> HStr ''city'', ''country'' \<mapsto> HRef (length h))])"
  using assms by (simp add: transformPlaceUnion_heap_def bind_err_def alloc_def)

lemma heap_run_country:
  assumes "h_opt_member h v Rel_city = Inr t" and "\<not> h_truthy t"
    and "h_opt_member h v Rel_country = Inr t'" and "h_truthy t'"
    and "h_member h v Rel_country = Inr k" and "own_props h k = Inr kps"
  shows "transformPlaceUnion_heap v h =
    Inr (HRef (length h), h @ [(Map.empty ++ kps)(''type'' \<mapsto> HStr ''country'')])"
  using assms by (simp add: transformPlaceUnion_heap_def bind_err_def alloc_def)

lemma heap_run_null:
  assumes "h_opt_member h v Rel_city = Inr t" and "\<not> h_truthy t"
    and "h_opt_member h v Rel_country = Inr t'" and "\<not> h_truthy t'"
  shows "transformPlaceUnion_heap v h = Inr (HNull, h)"
  using assms by (simp add: transformPlaceUnion_heap_def bind_err_def)

lemma heap_run_cases:
  assumes "transformPlaceUnion_heap v h = Inr (v', h')"
  obtains
    (city) t c cps k kps where
      "h_opt_member h v Rel_city = Inr t" "h_truthy t"
      "h_member h v Rel_city = Inr c" "own_props h c = Inr cps"
      "h_member h c Rel_country = Inr k" "own_props h k = Inr kps"
  | (country) t t' k kps where
      "h_opt_member h v Rel_city = Inr t" "\<not> h_truthy t"
      "h_opt_member h v Rel_country = Inr t'" "h_truthy t'"
      "h_member h v Rel_country = Inr k" "own_props h k = Inr kps"
  | (null) t t' where
      "h_opt_member h v Rel_city = Inr t" "\<not> h_truthy t"
      "h_opt_member h v Rel_country = Inr t'" "\<not> h_truthy t'"
  using assms
  by (auto simp: transformPlaceUnion_heap_def bind_err_def split: sum.splits if_splits)

lemma snapshot_same_object:
  "a < length h \<Longrightarrow> b < length h \<Longrightarrow> h ! a = h ! b \<Longrightarrow>
   snapshot d h (HRef a) = snapshot d h (HRef b)"
  by (cases d) simp_all

lemma snapshot_city_outputs:
  assumes "h2 = h @ [inner, cps(''country'' \<mapsto> HRef (length h)),
                     inner, cps(''country'' \<mapsto> HRef (Suc (Suc (length h))))]"
  shows "snapshot d h2 (HRef (Suc (length h))) = snapshot d h2 (HRef (Suc (Suc (Suc (length h)))))"
proof (cases d)
  case 0
  then show ?thesis by simp
next
  case (Suc d')
  have inner: "snapshot d' h2 (HRef (length h)) = snapshot d' h2 (HRef (Suc (Suc (length h))))"
    by (rule snapshot_same_object) (simp_all add: assms nth_append)
  show ?thesis
    using inner by (simp add: Suc assms nth_append fun_eq_iff)
qed

lemma two_runs:
  assumes run1: "transformPlaceUnion_heap v h = Inr (v1, h1)"
  shows "\<exists>v2 h2 hs. transformPlaceUnion_heap v h1 = Inr (v2, h2) \<and> h2 = h @ hs
     \<and> (\<forall>d. snapshot d h2 v1 = snapshot d h2 v2)"
  using run1
proof (cases rule: heap_run_cases)
  case (city t c cps k kps)
  from heap_run_city [OF city] run1
  have v1: "v1 = HRef (Suc (length h))"
    and h1: "h1 = h @ [[''type'' \<mapsto> HStr ''country''] ++ kps,
              (Map.empty ++ cps)(''type'' \<mapsto> HStr ''city'', ''country'' \<mapsto> HRef (length h))]"
    by simp_all
  have reads: "h_opt_member h1 v Rel_city = Inr t" "h_member h1 v Rel_city = Inr c"
    "own_props h1 c = Inr cps" "h_member h1 c Rel_country = Inr k" "own_props h1 k = Inr kps"
    unfolding h1 using city
    by (simp_all add: h_member_append h_opt_member_append own_props_append)
  from heap_run_city [OF reads(1) city(2) reads(2-5)]
  have run2: "transformPlaceUnion_heap v h1 =
    Inr (HRef (Suc (length h1)),
         h1 @ [[''type'' \<mapsto> HStr ''country''] ++ kps,
              (Map.empty ++ cps)(''type'' \<mapsto> HStr ''city'', ''country'' \<mapsto> HRef (length h1))])" .
  have "snapshot d (h1 @ [[''type'' \<mapsto> HStr ''country''] ++ kps,
              (Map.empty ++ cps)(''type'' \<mapsto> HStr ''city'', ''country'' \<mapsto> HRef (length h1))]) v1
    = snapshot d (h1 @ [[''type'' \<mapsto> HStr ''country''] ++ kps,
              (Map.empty ++ cps)(''type'' \<mapsto> HStr ''city'', ''country'' \<mapsto> HRef (length h1))])
         (HRef (Suc (length h1)))" for d
    using snapshot_city_outputs [of _ h "[''type'' \<mapsto> HStr ''country''] ++ kps"
        "(Map.empty ++ cps)(''type'' \<mapsto> HStr ''city'')" d, OF refl]
    by (simp add: v1 h1)
  with run2 show ?thesis by (simp add: h1)
next
  case (country t t' k kps)
  from heap_run_country [OF country] run1
  have v1: "v1 = HRef (length h)"
    and h1: "h1 = h @ [(Map.empty ++ kps)(''type'' \<mapsto> HStr ''country'')]"
    by simp_all
  have reads: "h_opt_member h1 v Rel_city = Inr t" "h_opt_member h1 v Rel_country = Inr t'"
    "h_member h1 v Rel_country = Inr k" "own_props h1 k = Inr kps"
    unfolding h1 using country
    by (simp_all add: h_member_append h_opt_member_append own_props_append)
  from heap_run_country [OF reads(1) country(2) reads(2) country(4) reads(3,4)]
  have run2: "transformPlaceUnion_heap v h1 =
    Inr (HRef (length h1), h1 @ [(Map.empty ++ kps)(''type'' \<mapsto> HStr ''country'')])" .
  have "snapshot d (h1 @ [(Map.empty ++ kps)(''type'' \<mapsto> HStr ''country'')]) v1
    = snapshot d (h1 @ [(Map.empty ++ kps)(''type'' \<mapsto> HStr ''country'')]) (HRef (length h1))" for d
    unfolding v1 by (rule snapshot_same_object) (simp_all add: h1 nth_append)
  with run2 show ?thesis by (simp add: h1)
next
  case (null t t')
  from heap_run_null [OF null] run1 have "v1 = HNull" "h1 = h" by simp_all
  with run1 show ?thesis by simp
qed


lemma snapshot_JNum: "snapshot d h x = JNum i \<Longrightarrow> x = HNum i"
  by (cases x; cases d) (simp_all split: if_splits)

lemma snapshot_JStr: "snapshot d h x = JStr s \<Longrightarrow> x = HStr s"
  by (cases x; cases d) (simp_all split: if_splits)

lemma snapshot_JNull: "snapshot d h x = JNull \<Longrightarrow> x = HNull"
  by (cases x; cases d) (simp_all split: if_splits)

lemma snapshot_JObj:
  assumes "snapshot (Suc d) h x = JObj M"
  shows "\<exists>a. x = HRef a \<and> a < length h
    \<and> (\<forall>k. map_option (snapshot d h) ((h ! a) k) = M k)"
  using assms by (cases x) (auto split: if_splits)

lemma stored_Country:
  assumes "snapshot (Suc d) h x = JObj (props_Country k)"
  obtains a where "x = HRef a" "a < length h"
    "h ! a = [''id'' \<mapsto> HNum (country_id k), ''name'' \<mapsto> HStr (country_name k)]"
proof -
  from snapshot_JObj [OF assms] obtain a where a: "x = HRef a" "a < length h"
    and m: "\<And>f. map_option (snapshot d h) ((h ! a) f) = props_Country k f"
    by blast
  have "(h ! a) f = [''id'' \<mapsto> HNum (country_id k), ''name'' \<mapsto> HStr (country_name k)] f" for f
    using m [of f]
    by (auto simp: props_Country_def split: if_splits dest: snapshot_JNum snapshot_JStr)
  then have "h ! a = [''id'' \<mapsto> HNum (country_id k), ''name'' \<mapsto> HStr (country_name k)]"
    by (rule ext)
  with a that show thesis by blast
qed

lemma stored_City:
  assumes "snapshot (Suc (Suc d)) h x = JObj (props_City c)"
  obtains a b where "x = HRef a" "a < length h" "b < length h"
    "h ! a = [''id'' \<mapsto> HNum (city_id c), ''name'' \<mapsto> HStr (city_name c),
              ''countryId'' \<mapsto> HNum (city_countryId c), ''country'' \<mapsto> HRef b]"
    "h ! b = [''id'' \<mapsto> HNum (country_id (city_country c)),
              ''name'' \<mapsto> HStr (country_name (city_country c))]"
proof -
  from snapshot_JObj [OF assms] obtain a where a: "x = HRef a" "a < length h"
    and m: "\<And>f. map_option (snapshot (Suc d) h) ((h ! a) f) = props_City c f"
    by blast
  from m [of "''country''"] obtain y where y: "(h ! a) ''country'' = Some y"
    "snapshot (Suc d) h y = JObj (props_Country (city_country c))"
    by (auto simp: props_City_def)
  from y(2) obtain b where b: "y = HRef b" "b < length h"
    "h ! b = [''id'' \<mapsto> HNum (country_id (city_country c)),
              ''name'' \<mapsto> HStr (country_name (city_country c))]"
    by (rule stored_Country)
  have "(h ! a) f = [''id'' \<mapsto> HNum (city_id c), ''name'' \<mapsto> HStr (city_name c),
              ''countryId'' \<mapsto> HNum (city_countryId c), ''country'' \<mapsto> HRef b] f" for f
    using m [of f] y(1) b(1)
    by (auto simp: props_City_def split: if_splits dest: snapshot_JNum snapshot_JStr)
  then have "h ! a = [''id'' \<mapsto> HNum (city_id c), ''name'' \<mapsto> HStr (city_name c),
              ''countryId'' \<mapsto> HNum (city_countryId c), ''country'' \<mapsto> HRef b]"
    by (rule ext)
  with a b that show thesis by blast
qed


lemma heap_refines_typed:
  assumes rep: "snapshot (Suc (Suc (Suc d))) h v = js_of_PlaceResult r"
  shows "\<exists>v' h'. transformPlaceUnion_heap v h = Inr (v', h')
     \<and> transformPlaceUnion r = Inr (snapshot (Suc (Suc e)) h' v')"
proof (cases r)
  case None
  with rep have "v = HNull"
    by (auto simp: js_of_PlaceResult_def dest: snapshot_JNull)
  then have "transformPlaceUnion_heap v h = Inr (HNull, h)"
    using heap_run_null [of h HNull HUndefined HUndefined] by simp
  with None show ?thesis
    by (simp add: transformPlaceUnion_null)
next
  case (Some p)
  with rep have rep': "snapshot (Suc (Suc (Suc d))) h v = js_of_Place p"
    by (simp add: js_of_PlaceResult_def)
  from snapshot_JObj [OF rep' [unfolded js_of_Place_def]] obtain a where
    a: "v = HRef a" "a < length h" and
    m: "\<And>f. map_option (snapshot (Suc (Suc d)) h) ((h ! a) f) =
        [''id'' \<mapsto> JNum (place_id p),
         ''cityId'' \<mapsto> (case place_cityId p of None \<Rightarrow> JNull | Some c \<Rightarrow> JNum c),
         ''countryId'' \<mapsto> (case place_countryId p of None \<Rightarrow> JNull | Some k \<Rightarrow> JNum k),
         ''country'' \<mapsto> (case place_country p of None \<Rightarrow> JNull | Some k \<Rightarrow> JObj (props_Country k)),
         ''city'' \<mapsto> (case place_city p of None \<Rightarrow> JNull | Some c \<Rightarrow> JObj (props_City c))] f"
    by blast
  from m [of "''city''"] obtain vc where vc: "(h ! a) ''city'' = Some vc"
    "snapshot (Suc (Suc d)) h vc = (case place_city p of None \<Rightarrow> JNull | Some c \<Rightarrow> JObj (props_City c))"
    by auto
  from m [of "''country''"] obtain vk where vk: "(h ! a) ''country'' = Some vk"
    "snapshot (Suc (Suc d)) h vk = (case place_country p of None \<Rightarrow> JNull | Some k \<Rightarrow> JObj (props_Country k))"
    by auto
  have read_city: "h_opt_member h v Rel_city = Inr vc" "h_member h v Rel_city = Inr vc"
    and read_country: "h_opt_member h v Rel_country = Inr vk" "h_member h v Rel_country = Inr vk"
    using a vc(1) vk(1) by simp_all
  show ?thesis
  proof (cases "place_city p")
    case city: (Some c)
    with vc(2) have "snapshot (Suc (Suc d)) h vc = JObj (props_City c)" by simp
    then obtain ac b where ac: "vc = HRef ac" "ac < length h" "b < length h"
      "h ! ac = [''id'' \<mapsto> HNum (city_id c), ''name'' \<mapsto> HStr (city_name c),
              ''countryId'' \<mapsto> HNum (city_countryId c), ''country'' \<mapsto> HRef b]"
      "h ! b = [''id'' \<mapsto> HNum (country_id (city_country c)),
              ''name'' \<mapsto> HStr (country_name (city_country c))]"
      by (rule stored_City)
    have run: "transformPlaceUnion_heap v h =
      Inr (HRef (Suc (length h)),
         h @ [[''type'' \<mapsto> HStr ''country''] ++ (h ! b),
              (Map.empty ++ (h ! ac))(''type'' \<mapsto> HStr ''city'', ''country'' \<mapsto> HRef (length h))])"
      by (rule heap_run_city [OF read_city(1) _ read_city(2), where k = "HRef b"])
        (simp_all add: ac)
    show ?thesis
      unfolding run Some
      by (simp add: transformPlaceUnion_cases city ac nth_append props_City_def props_Country_def
          fun_eq_iff map_add_def)
  next
    case no_city: None
    with vc(2) have vc_null: "vc = HNull" by (auto dest: snapshot_JNull)
    show ?thesis
    proof (cases "place_country p")
      case country: (Some k)
      with vk(2) have "snapshot (Suc (Suc d)) h vk = JObj (props_Country k)" by simp
      then obtain ak where ak: "vk = HRef ak" "ak < length h"
        "h ! ak = [''id'' \<mapsto> HNum (country_id k), ''name'' \<mapsto> HStr (country_name k)]"
        by (rule stored_Country)
      have run: "transformPlaceUnion_heap v h =
        Inr (HRef (length h), h @ [(Map.empty ++ (h ! ak))(''type'' \<mapsto> HStr ''country'')])"
        by (rule heap_run_country [OF read_city(1) _ read_country(1) _ read_country(2)])
          (simp_all add: ak vc_null)
      show ?thesis
        unfolding run Some
        by (simp add: transformPlaceUnion_cases no_city country ak nth_append props_Country_def
            fun_eq_iff)
    next
      case no_country: None
      with vk(2) have vk_null: "vk = HNull" by (auto dest: snapshot_JNull)
      have run: "transformPlaceUnion_heap v h = Inr (HNull, h)"
        by (rule heap_run_null [OF read_city(1) _ read_country(1)]) (simp_all add: vc_null vk_null)
      show ?thesis
        unfolding run Some
        by (simp add: transformPlaceUnion_cases no_city no_country)
    qed
  qed
qed

lemma closedD:
  "closed h \<Longrightarrow> a < length h \<Longrightarrow> (h ! a) k = Some x \<Longrightarrow> valid h x"
  unfolding closed_def using nth_mem by blast

lemma snapshot_append:
  assumes "closed h" and "valid h v"
  shows "snapshot d (h @ hs) v = snapshot d h v"
  using assms(2)
proof (induction d arbitrary: v)
  case 0
  then show ?case by (cases v) simp_all
next
  case (Suc d)
  show ?case
  proof (cases v)
    case (HRef a)
    with Suc.prems have a: "a < length h" by simp
    have "map_option (snapshot d (h @ hs)) ((h ! a) k) = map_option (snapshot d h) ((h ! a) k)" for k
    proof (cases "(h ! a) k")
      case None
      then show ?thesis by simp
    next
      case (Some x)
      with assms(1) a have "valid h x"
        by (blast dest: closedD)
      from Suc.IH [OF this] Some show ?thesis by simp
    qed
    with a HRef show ?thesis by (simp add: nth_append)
  qed simp_all
qed

lemma heap_run_total:
  assumes "closed h" and "valid h v"
  shows "\<exists>v' h'. transformPlaceUnion_heap v h = Inr (v', h')"
proof -
  have props: "\<exists>m. own_props h x = Inr m" if "valid h x" for x
    using that by (cases x) simp_all
  have memb: "\<exists>y. h_member h x r = Inr y \<and> valid h y" if "valid h x" "h_truthy x" for x r
  proof (cases x)
    case (HRef a)
    with that have a: "a < length h" by simp
    show ?thesis
    proof (cases "(h ! a) (relation_name r)")
      case None
      with a HRef show ?thesis by simp
    next
      case (Some y)
      with assms(1) a have "valid h y" by (blast dest: closedD)
      with a HRef Some show ?thesis by simp
    qed
  qed (use that in simp_all)
  have opt: "\<exists>y. h_opt_member h v r = Inr y \<and> valid h y
      \<and> (h_truthy y \<longrightarrow> h_member h v r = Inr y)" for r
  proof (cases "h_truthy v")
    case True
    from memb [OF assms(2) True, of r] obtain y where "h_member h v r = Inr y" "valid h y"
      by blast
    with True show ?thesis by (cases v) simp_all
  next
    case False
    then show ?thesis by (cases v) simp_all
  qed
  from opt [of Rel_city] obtain t where t: "h_opt_member h v Rel_city = Inr t" "valid h t"
    "h_truthy t \<longrightarrow> h_member h v Rel_city = Inr t" by blast
  from opt [of Rel_country] obtain t' where t': "h_opt_member h v Rel_country = Inr t'" "valid h t'"
    "h_truthy t' \<longrightarrow> h_member h v Rel_country = Inr t'" by blast
  show ?thesis
  proof (cases "h_truthy t")
    case True
    from props [OF t(2)] obtain cps where cps: "own_props h t = Inr cps" by blast
    from memb [OF t(2) True, of Rel_country] obtain k where
      k: "h_member h t Rel_country = Inr k" "valid h k" by blast
    from props [OF k(2)] obtain kps where kps: "own_props h k = Inr kps" by blast
    from heap_run_city [OF t(1) True _ cps k(1) kps] t(3) True show ?thesis by blast
  next
    case False
    show ?thesis
    proof (cases "h_truthy t'")
      case True
      from props [OF t'(2)] obtain kps where kps: "own_props h t' = Inr kps" by blast
      from heap_run_country [OF t(1) False t'(1) True _ kps] t'(3) True show ?thesis by blast
    next
      case no: False
      from heap_run_null [OF t(1) False t'(1) no] show ?thesis by blast
    qed
  qed
qed

lemma heap_run_extends:
  assumes run: "transformPlaceUnion_heap v h = Inr (v', h')"
  shows "\<exists>hs. h' = h @ hs"
  using run
proof (cases rule: heap_run_cases)
  case (city t c cps k kps)
  from heap_run_city [OF city] run show ?thesis by simp
next
  case (country t t' k kps)
  from heap_run_country [OF country] run show ?thesis by simp
next
  case (null t t')
  from heap_run_null [OF null] run show ?thesis by simp
qed

text \<open>
  C8. The reconstruction reads nothing but its input and changes no object. On a heap in
  which every reference leads to an object, two runs on the same input both return; the
  two results are structurally identical down to every depth; the heap after both runs
  is the first heap with new objects appended, and the input has the structure it had.
  When the input is a query result \<open>r\<close> of the client, both results have the structure
  that \<open>transformPlaceUnion r\<close> gives.
\<close>

theorem two_runs_structurally_identical:
  assumes "closed h" and "valid h v"
  shows "\<exists>v1 h1 v2 h2 hs.
      transformPlaceUnion_heap v h = Inr (v1, h1)
    \<and> transformPlaceUnion_heap v h1 = Inr (v2, h2)
    \<and> (\<forall>d. snapshot d h2 v1 = snapshot d h2 v2)
    \<and> h2 = h @ hs
    \<and> (\<forall>d. snapshot d h2 v = snapshot d h v)
    \<and> (\<forall>r. snapshot 3 h v = js_of_PlaceResult r \<longrightarrow>
          transformPlaceUnion r = Inr (snapshot 2 h2 v1)
        \<and> transformPlaceUnion r = Inr (snapshot 2 h2 v2))"
proof -
  from heap_run_total [OF assms] obtain v1 h1 where
    run1: "transformPlaceUnion_heap v h = Inr (v1, h1)" by blast
  from two_runs [OF run1] obtain v2 h2 hs where
    run2: "transformPlaceUnion_heap v h1 = Inr (v2, h2)" and
    ext: "h2 = h @ hs" and
    same: "\<And>d. snapshot d h2 v1 = snapshot d h2 v2"
    by blast
  have input: "snapshot d h2 v = snapshot d h v" for d
    unfolding ext by (rule snapshot_append [OF assms])
  have typed: "transformPlaceUnion r = Inr (snapshot 2 h2 v1)
        \<and> transformPlaceUnion r = Inr (snapshot 2 h2 v2)"
    if rep: "snapshot 3 h v = js_of_PlaceResult r" for r
  proof -
    from heap_run_extends [OF run1] obtain hs1 where h1: "h1 = h @ hs1" by blast
    have "snapshot (Suc (Suc (Suc 0))) h1 v = js_of_PlaceResult r"
      using rep snapshot_append [OF assms, of 3 hs1] by (simp add: h1 numeral_3_eq_3)
    from heap_refines_typed [OF this, of 0] run2
    have "transformPlaceUnion r = Inr (snapshot 2 h2 v2)"
      by (simp add: numeral_2_eq_2)
    with same [of 2] show ?thesis by simp
  qed
  from run1 run2 same ext input typed show ?thesis by blast
qed

theorem two_runs_structurally_identical_witness:
  "closed heap_New_York \<and> valid heap_New_York (HRef 2)
   \<and> snapshot 3 heap_New_York (HRef 2) = js_of_PlaceResult (Some place_New_York)
   \<and> (\<exists>h1 h2. transformPlaceUnion_heap (HRef 2) heap_New_York = Inr (HRef 4, h1)
        \<and> transformPlaceUnion_heap (HRef 2) h1 = Inr (HRef 6, h2)
        \<and> (\<forall>d. snapshot d h2 (HRef 4) = snapshot d h2 (HRef 6))
        \<and> transformPlaceUnion (Some place_New_York) = Inr (snapshot 2 h2 (HRef 4))
        \<and> transformPlaceUnion (Some place_New_York) = Inr (snapshot 2 h2 (HRef 6)))"
proof -
  have c: "closed heap_New_York"
    by (auto simp: closed_def heap_New_York_def split: if_splits)
  have v: "valid heap_New_York (HRef 2)"
    by (simp add: heap_New_York_def)
  have rep: "snapshot 3 heap_New_York (HRef 2) = js_of_PlaceResult (Some place_New_York)"
    by (simp add: numeral_3_eq_3 heap_New_York_def js_of_PlaceResult_def js_of_Place_def
        place_New_York_def New_York_def United_States_def props_City_def props_Country_def
        fun_eq_iff)
  from two_runs_structurally_identical [OF c v] obtain v1 h1 v2 h2 where
    run1: "transformPlaceUnion_heap (HRef 2) heap_New_York = Inr (v1, h1)" and
    run2: "transformPlaceUnion_heap (HRef 2) h1 = Inr (v2, h2)" and
    same: "\<forall>d. snapshot d h2 v1 = snapshot d h2 v2" and
    typed: "\<forall>r. snapshot 3 heap_New_York (HRef 2) = js_of_PlaceResult r \<longrightarrow>
          transformPlaceUnion r = Inr (snapshot 2 h2 v1)
        \<and> transformPlaceUnion r = Inr (snapshot 2 h2 v2)"
    by blast
  from run1 have v1: "v1 = HRef 4" and h1: "length h1 = 5" "h1 ! 2 = heap_New_York ! 2"
    "h1 ! 1 = heap_New_York ! 1" "h1 ! 0 = heap_New_York ! 0"
    by (auto simp: transformPlaceUnion_heap_def bind_err_def alloc_def heap_New_York_def
        eval_nat_numeral)
  from run2 h1 have v2: "v2 = HRef 6"
    by (auto simp: transformPlaceUnion_heap_def bind_err_def alloc_def heap_New_York_def
        eval_nat_numeral split: if_splits)
  from c v rep run1 run2 same typed show ?thesis
    unfolding v1 v2 by blast
qed

end
